theory Spec2Isabelle
  imports Complex_Main
begin

section \<open>Exceptions\<close>

text \<open>
  The exceptions the two source files can raise, as values. The two messages that
  \<open>port_type\<close> formats carry the interpolated value.
\<close>

datatype port_msg = MustBeInteger "nat list" | OutOfRange int

datatype error =
    ValueError
  | ArgumentTypeError port_msg
  | IndexError
  | RuntimeError
  | OSError
  | OverflowError

section \<open>Paths (pathlib, POSIX flavour)\<close>

text \<open>
  A \<open>pathlib.Path\<close> is its anchor (absolute or not) and its name components. The model is
  the POSIX flavour; a leading double slash is read as the ordinary root.
\<close>

record path =
  absolute :: bool
  parts :: "string list"

fun split_sep :: "string \<Rightarrow> string list" where
  "split_sep [] = [[]]"
| "split_sep (c # cs) =
     (if c = CHR ''/'' then [] # split_sep cs
      else (case split_sep cs of [] \<Rightarrow> [[c]] | p # ps \<Rightarrow> (c # p) # ps))"

definition Path :: "string \<Rightarrow> path" where
  \<comment> \<open>\<open>Path(s)\<close>: empty and \<open>.\<close> components are dropped by the constructor.\<close>
  "Path s = \<lparr>absolute = (take 1 s = ''/''),
             parts = filter (\<lambda>p. p \<noteq> [] \<and> p \<noteq> ''.'') (split_sep s)\<rparr>"

definition joinpath :: "path \<Rightarrow> string \<Rightarrow> path" where
  \<comment> \<open>\<open>p / s\<close>: an absolute right operand replaces the left one.\<close>
  "joinpath p s =
     (let q = Path s in if absolute q then q else p\<lparr>parts := parts p @ parts q\<rparr>)"

definition parents :: "path \<Rightarrow> nat \<Rightarrow> error + path" where
  \<comment> \<open>\<open>p.parents[i]\<close>: the sequence of ancestors has one element for each name component;
      an index beyond it raises IndexError.\<close>
  "parents p i =
     (if i < length (parts p)
      then Inr (p\<lparr>parts := take (length (parts p) - Suc i) (parts p)\<rparr>)
      else Inl IndexError)"

definition parent :: "path \<Rightarrow> path" where
  \<comment> \<open>\<open>p.parent\<close>: the parent of an anchor is the anchor itself.\<close>
  "parent p = p\<lparr>parts := butlast (parts p)\<rparr>"

section \<open>The process environment and the file system\<close>

text \<open>
  A cache file as the purge loop sees it: what \<open>is_file()\<close> answers, the modification time
  \<open>stat().st_mtime\<close>, and whether \<open>stat()\<close> or \<open>unlink()\<close> raise OSError for it. Times are
  seconds since the epoch; a floating-point number of the source is the real number it
  denotes, and the rounding of the arithmetic is the function \<open>fround\<close> of the world.
\<close>

record entry =
  is_file :: bool
  st_mtime :: real
  stat_raises :: bool
  unlink_raises :: bool

text \<open>
  What stands under a name in the cache root: a directory with its entries in the order
  \<open>iterdir()\<close> yields them, or something that exists but cannot be enumerated (a regular
  file, a directory without read permission), for which \<open>iterdir()\<close> raises OSError. A name
  that is absent does not exist.
\<close>

datatype node = Dir "(string \<times> entry) list" | Unlistable

record world =
  environ :: "string \<rightharpoonup> string"
  cwd :: "string list"
  pw_dir :: "string \<rightharpoonup> string"
  clock :: real
  fround :: "real \<Rightarrow> real"
  realpath :: "string list \<Rightarrow> string list"
  fs :: "path \<Rightarrow> string \<rightharpoonup> node"
  logged :: "path list"

text \<open>
  \<open>cwd\<close> holds the components of the working directory; \<open>pw_dir\<close> is the password database
  (user name to home directory, the empty name standing for the current user); \<open>clock\<close> is
  what \<open>time.time()\<close> returns; \<open>fround\<close> rounds a real number to the nearest double;
  \<open>realpath\<close> is the file system's resolution of the components of an absolute path
  (\<open>os.path.realpath\<close>: symbolic links followed, \<open>.\<close> and \<open>..\<close> eliminated; the links are
  taken to form no loop); \<open>fs d\<close> is the content of directory \<open>d\<close>; \<open>logged\<close> collects the
  paths that \<open>logger.exception\<close> reported.
\<close>

text \<open>
  In a file system without symbolic links the resolution is lexical: \<open>normalise\<close> drops
  \<open>.\<close> and steps back at \<open>..\<close> (at the root, \<open>..\<close> stays at the root).
\<close>

definition norm_step :: "string list \<Rightarrow> string \<Rightarrow> string list" where
  "norm_step acc c =
     (if c = [] \<or> c = ''.'' then acc
      else if c = ''..'' then butlast acc
      else acc @ [c])"

definition normalise :: "string list \<Rightarrow> string list" where
  "normalise cs = foldl norm_step [] cs"

definition resolve :: "world \<Rightarrow> path \<Rightarrow> path" where
  \<comment> \<open>\<open>p.resolve()\<close>: made absolute against the working directory, then resolved by the
      file system.\<close>
  "resolve w p =
     \<lparr>absolute = True,
      parts = realpath w ((if absolute p then [] else cwd w) @ parts p)\<rparr>"

definition rstrip_sep :: "string \<Rightarrow> string" where
  "rstrip_sep s = rev (dropWhile (\<lambda>c. c = CHR ''/'') (rev s))"

definition os_expanduser :: "world \<Rightarrow> string \<Rightarrow> string" where
  \<comment> \<open>\<open>os.path.expanduser\<close> on one component that starts with a tilde: \<open>HOME\<close> or the password
      database for the bare tilde, the password database for a named user; the component
      comes back unchanged when the home directory is unknown.\<close>
  "os_expanduser w c =
     (let user = tl c;
          home = (if user = []
                  then (case environ w ''HOME'' of Some h \<Rightarrow> Some h | None \<Rightarrow> pw_dir w [])
                  else pw_dir w user)
      in case home of
           None \<Rightarrow> c
         | Some h \<Rightarrow> (if rstrip_sep h = [] then ''/'' else rstrip_sep h))"

definition expanduser :: "world \<Rightarrow> path \<Rightarrow> error + path" where
  "expanduser w p =
     (case parts p of
        [] \<Rightarrow> Inr p
      | c # rest \<Rightarrow>
          if \<not> absolute p \<and> take 1 c = ''~''
          then (let homedir = os_expanduser w c
                in if take 1 homedir = ''~'' then Inl RuntimeError
                   else Inr \<lparr>absolute = absolute (Path homedir),
                            parts = parts (Path homedir) @ rest\<rparr>)
          else Inr p)"

section \<open>Path resolution of the server\<close>

record ServerPaths =
  modules_dir :: path
  tools_dir :: path
  prompts_dir :: path
  resources_dir :: path
  project_dir :: path
  cache_dir :: path

definition resolve_cache_dir :: "world \<Rightarrow> path \<Rightarrow> error + path" where
  "resolve_cache_dir w project =
     (case environ w ''MCP_CACHE_DIR'' of
        Some override \<Rightarrow>
          if override \<noteq> []
          then (case expanduser w (Path override) of
                  Inl e \<Rightarrow> Inl e
                | Inr p \<Rightarrow> Inr (resolve w p))
          else Inr (resolve w (joinpath project ''Cache''))
      | None \<Rightarrow> Inr (resolve w (joinpath project ''Cache'')))"

definition resolve_paths :: "world \<Rightarrow> path \<Rightarrow> error + ServerPaths" where
  "resolve_paths w this_file =
     (case parents this_file 1 of
        Inl e \<Rightarrow> Inl e
      | Inr m \<Rightarrow>
          let modules = resolve w m;
              tools = resolve w (joinpath modules ''tools'');
              prompts = resolve w (joinpath modules ''prompts'');
              resources = resolve w (joinpath modules ''resources'')
          in (case parents modules 1 of
                Inl e \<Rightarrow> Inl e
              | Inr pr \<Rightarrow>
                  let project = resolve w pr
                  in (case resolve_cache_dir w project of
                        Inl e \<Rightarrow> Inl e
                      | Inr cache \<Rightarrow>
                          Inr \<lparr>modules_dir = modules, tools_dir = tools,
                               prompts_dir = prompts, resources_dir = resources,
                               project_dir = project, cache_dir = cache\<rparr>)))"

section \<open>The cache purge\<close>

text \<open>
  The body of the \<open>try\<close> block for one directory entry: \<open>is_file()\<close>, then \<open>stat()\<close>, then
  the comparison with the cutoff, then \<open>unlink(missing_ok=True)\<close>. An OSError of \<open>stat\<close> or
  \<open>unlink\<close> is caught by the handler, which logs the path and goes on.
\<close>

datatype verdict = Kept | Deleted | Failed

definition purge_entry :: "real \<Rightarrow> entry \<Rightarrow> verdict" where
  "purge_entry cutoff e =
     (if is_file e
      then (if stat_raises e then Failed
            else if st_mtime e < cutoff
                 then (if unlink_raises e then Failed else Deleted)
                 else Kept)
      else Kept)"

definition child :: "path \<Rightarrow> string \<Rightarrow> path" where
  \<comment> \<open>the path \<open>iterdir()\<close> yields for the entry \<open>n\<close> of directory \<open>d\<close>\<close>
  "child d n = d\<lparr>parts := parts d @ [n]\<rparr>"

text \<open>
  The inner loop \<open>for path in d.iterdir()\<close>: the entries that remain in the directory, and
  the paths reported to the log, in the order of the iteration.
\<close>

fun purge_entries :: "real \<Rightarrow> path \<Rightarrow> (string \<times> entry) list \<Rightarrow> (string \<times> entry) list \<times> path list" where
  "purge_entries cutoff d [] = ([], [])"
| "purge_entries cutoff d ((n, e) # rest) =
     (let (kept, lg) = purge_entries cutoff d rest
      in case purge_entry cutoff e of
           Deleted \<Rightarrow> (kept, lg)
         | Kept \<Rightarrow> ((n, e) # kept, lg)
         | Failed \<Rightarrow> ((n, e) # kept, child d n # lg))"

text \<open>
  The outer loop \<open>for rel in ("audio", "transcripts")\<close>. \<open>d.exists()\<close> skips an absent
  name; \<open>d.iterdir()\<close> stands outside the \<open>try\<close>, so its OSError leaves the function and the
  changes made so far stay.
\<close>

fun purge_dirs :: "real \<Rightarrow> path \<Rightarrow> string list \<Rightarrow> world \<Rightarrow> error option \<times> world" where
  "purge_dirs cutoff cache [] w = (None, w)"
| "purge_dirs cutoff cache (rel # rels) w =
     (case fs w cache rel of
        None \<Rightarrow> purge_dirs cutoff cache rels w
      | Some Unlistable \<Rightarrow> (Some OSError, w)
      | Some (Dir es) \<Rightarrow>
          (let (kept, lg) = purge_entries cutoff (joinpath cache rel) es
           in purge_dirs cutoff cache rels
                (w\<lparr>fs := (fs w)(cache := (fs w cache)(rel \<mapsto> Dir kept)),
                   logged := logged w @ lg\<rparr>)))"

text \<open>
  \<open>cutoff = time.time() - (days * 86_400)\<close>. The product is an integer of any size; the
  subtraction first converts it to a double, which raises OverflowError when it rounds
  beyond the largest double, that is from \<open>2^1024 - 2^970\<close> on; then the difference is
  rounded. A difference beyond the range of the doubles is an infinity in the source and
  has no counterpart here: the theorems on the cutoff bound the clock and the product.
\<close>

definition float_overflow_bound :: int where
  "float_overflow_bound = 2 ^ 1024 - 2 ^ 970"

definition int_to_float :: "world \<Rightarrow> int \<Rightarrow> error + real" where
  "int_to_float w n =
     (if float_overflow_bound \<le> \<bar>n\<bar> then Inl OverflowError else Inr (fround w (of_int n)))"

definition purge_cutoff :: "world \<Rightarrow> int \<Rightarrow> error + real" where
  "purge_cutoff w days =
     (case int_to_float w (days * 86400) of
        Inl e \<Rightarrow> Inl e
      | Inr x \<Rightarrow> Inr (fround w (clock w - x)))"

definition purge_cache :: "path \<Rightarrow> int \<Rightarrow> world \<Rightarrow> error option \<times> world" where
  "purge_cache cache days w =
     (case purge_cutoff w days of
        Inl e \<Rightarrow> (Some e, w)
      | Inr cutoff \<Rightarrow> purge_dirs cutoff cache [''audio'', ''transcripts''] w)"

section \<open>Server bootstrap and command line\<close>

text \<open>
  The server object with the fixed policy of \<open>create_server\<close>, and the items registered
  into it. The three registration functions live outside the two source files; they are
  parameters that act on the server object. The lines written with \<open>logger.info\<close> are not
  part of the model.
\<close>

record FastMCP =
  mcp_name :: string
  include_tags :: "string list"
  exclude_tags :: "string list"
  on_duplicate_tools :: string
  on_duplicate_resources :: string
  on_duplicate_prompts :: string
  include_fastmcp_meta :: bool
  registered :: "string list"

record framework =
  register_tools :: "path \<Rightarrow> FastMCP \<Rightarrow> FastMCP"
  register_prompts_from_markdown :: "path \<Rightarrow> FastMCP \<Rightarrow> FastMCP"
  register_prompts :: "path \<Rightarrow> FastMCP \<Rightarrow> FastMCP"

definition create_server :: FastMCP where
  "create_server =
     \<lparr>mcp_name = ''mcp_yt_server'',
      include_tags = [''public'', ''api''],
      exclude_tags = [''internal'', ''deprecated''],
      on_duplicate_tools = ''error'',
      on_duplicate_resources = ''warn'',
      on_duplicate_prompts = ''replace'',
      include_fastmcp_meta = False,
      registered = []\<rparr>"

definition attach_everything :: "framework \<Rightarrow> FastMCP \<Rightarrow> ServerPaths \<Rightarrow> FastMCP" where
  "attach_everything fw mcp paths =
     register_prompts fw (prompts_dir paths)
       (register_prompts_from_markdown fw (prompts_dir paths)
          (register_tools fw (tools_dir paths) mcp))"

text \<open>
  \<open>mcp.run\<close> blocks: the startup sequence ends either with an exception or with the
  listener started on a host and a port. The world returned is the one the listener
  starts in.
\<close>

datatype startup = Raised error | Listening FastMCP string int

definition launch_server ::
  "framework \<Rightarrow> path \<Rightarrow> string \<Rightarrow> int \<Rightarrow> int option \<Rightarrow> world \<Rightarrow> startup \<times> world" where
  "launch_server fw module_file host port purge_days w =
     (case resolve_paths w module_file of
        Inl e \<Rightarrow> (Raised e, w)
      | Inr paths \<Rightarrow>
          let mcp = create_server;
              (r, w') = (case purge_days of
                           None \<Rightarrow> (None, w)
                         | Some d \<Rightarrow> purge_cache (cache_dir paths) d w)
          in (case r of
                Some e \<Rightarrow> (Raised e, w')
              | None \<Rightarrow> (Listening (attach_everything fw mcp paths) host port, w')))"

text \<open>The namespace that \<open>parser.parse_args(argv)\<close> returns to \<open>main\<close>.\<close>

record Namespace =
  host :: string
  port :: int
  purge_cache_days :: int

definition main :: "framework \<Rightarrow> path \<Rightarrow> Namespace \<Rightarrow> world \<Rightarrow> startup \<times> world" where
  "main fw module_file args w =
     (let purge_days = (if purge_cache_days args < 0 then None
                        else Some (purge_cache_days args))
      in launch_server fw module_file (host args) (port args) purge_days w)"

section \<open>Port validation\<close>

text \<open>
  A Python \<open>str\<close> is the list of its code points. \<open>int(value)\<close> first rewrites the string to
  ASCII: a code point below 127 stays; above, a Unicode space becomes a blank, a Unicode
  decimal digit becomes the ASCII digit of its value, and anything else becomes a question
  mark, where the rewriting stops. The two tables of the Unicode database are parameters.
\<close>

record unicode_db =
  u_isspace :: "nat \<Rightarrow> bool"
  u_todecimal :: "nat \<Rightarrow> nat option"

definition ord_str :: "string \<Rightarrow> nat list" where
  \<comment> \<open>the code points of an ASCII literal\<close>
  "ord_str s = map of_char s"

fun ascii_transform :: "unicode_db \<Rightarrow> nat list \<Rightarrow> nat list" where
  "ascii_transform db [] = []"
| "ascii_transform db (cp # cps) =
     (if cp < 127 then cp # ascii_transform db cps
      else if u_isspace db cp then 32 # ascii_transform db cps
      else (case u_todecimal db cp of
              None \<Rightarrow> [63]
            | Some d \<Rightarrow> (48 + d) # ascii_transform db cps))"

text \<open>
  The ASCII string is then read in base ten: the whitespace of C (codes 9 to 13 and 32) is
  skipped on both sides, one sign is allowed, single underscores may stand between digits,
  and a numeral of more than 4300 digits is refused (the default of
  \<open>sys.int_max_str_digits\<close>). Every failure is a ValueError.
\<close>

definition is_space :: "nat \<Rightarrow> bool" where
  "is_space c \<longleftrightarrow> (9 \<le> c \<and> c \<le> 13) \<or> c = 32"

definition is_digit :: "nat \<Rightarrow> bool" where
  "is_digit c \<longleftrightarrow> 48 \<le> c \<and> c \<le> 57"

definition digit_val :: "nat \<Rightarrow> int" where
  "digit_val c = int c - 48"

definition strip :: "nat list \<Rightarrow> nat list" where
  "strip s = rev (dropWhile is_space (rev (dropWhile is_space s)))"

fun int_digits :: "int \<Rightarrow> nat list \<Rightarrow> error + int" where
  "int_digits acc [] = Inr acc"
| "int_digits acc [c] = (if is_digit c then Inr (acc * 10 + digit_val c) else Inl ValueError)"
| "int_digits acc (c # d # ds) =
     (if is_digit c then int_digits (acc * 10 + digit_val c) (d # ds)
      else if c = 95 \<and> is_digit d then int_digits (acc * 10 + digit_val d) ds
      else Inl ValueError)"

definition int_max_str_digits :: nat where
  "int_max_str_digits = 4300"

definition int_unsigned :: "nat list \<Rightarrow> error + int" where
  "int_unsigned s =
     (case s of
        [] \<Rightarrow> Inl ValueError
      | c # cs \<Rightarrow>
          if \<not> is_digit c then Inl ValueError
          else if int_max_str_digits < length (filter is_digit s) then Inl ValueError
          else int_digits (digit_val c) cs)"

definition py_int :: "unicode_db \<Rightarrow> nat list \<Rightarrow> error + int" where
  "py_int db v =
     (case strip (ascii_transform db v) of
        [] \<Rightarrow> Inl ValueError
      | c # cs \<Rightarrow>
          if c = 45 then (case int_unsigned cs of Inl e \<Rightarrow> Inl e | Inr n \<Rightarrow> Inr (- n))
          else if c = 43 then int_unsigned cs
          else int_unsigned (c # cs))"

definition port_type :: "unicode_db \<Rightarrow> nat list \<Rightarrow> error + int" where
  "port_type db v =
     (case py_int db v of
        Inl e \<Rightarrow> (if e = ValueError then Inl (ArgumentTypeError (MustBeInteger v)) else Inl e)
      | Inr p \<Rightarrow>
          if \<not> (1 \<le> p \<and> p \<le> 65535) then Inl (ArgumentTypeError (OutOfRange p))
          else Inr p)"

text \<open>
  An input is not a numeral when its ASCII form holds a character that cannot stand in a
  decimal numeral (anything but a digit, a sign, an underscore or whitespace), or no digit.
\<close>

definition numeral_char :: "nat \<Rightarrow> bool" where
  "numeral_char c \<longleftrightarrow> is_digit c \<or> is_space c \<or> c = 43 \<or> c = 45 \<or> c = 95"

definition non_numeric :: "unicode_db \<Rightarrow> nat list \<Rightarrow> bool" where
  "non_numeric db v \<longleftrightarrow>
     list_ex (\<lambda>c. \<not> numeral_char c) (ascii_transform db v)
     \<or> \<not> list_ex is_digit (ascii_transform db v)"

section \<open>The debug stub\<close>

text \<open>
  The stub is modelled on the two shapes of command line the specification speaks of: no
  argument at all, and \<open>--test v\<close>. For these argparse behaves as follows. With the
  required option missing it prints the usage and exits with status 2. With \<open>--test v\<close>
  it applies \<open>str.lower\<close> to \<open>v\<close> and accepts the result when it is one of the choices;
  otherwise (also when \<open>v\<close> starts with a dash and is read as an option, leaving \<open>--test\<close>
  without its argument) it prints the usage and exits with status 2.
\<close>

datatype invocation = NoArguments | TestArg string

datatype routine = ServerMain | ClientRun | SearchTest

datatype printed = Usage | FullHelp

datatype outcome = Exit int printed | Dispatched routine | Returned

definition sys_argv :: "invocation \<Rightarrow> string list" where
  "sys_argv cmd =
     ''debug_stub.py'' # (case cmd of NoArguments \<Rightarrow> [] | TestArg v \<Rightarrow> [''--test'', v])"

definition lower_char :: "char \<Rightarrow> char" where
  "lower_char c =
     (if 65 \<le> (of_char c :: nat) \<and> (of_char c :: nat) \<le> 90
      then char_of (of_char c + 32 :: nat) else c)"

definition str_lower :: "string \<Rightarrow> string" where
  "str_lower s = map lower_char s"

definition choices :: "string list" where
  "choices = [''mcp_yt-server'', ''universal-client'', ''yt-search'']"

definition parse_args :: "invocation \<Rightarrow> (int \<times> printed) + string" where
  "parse_args cmd =
     (case cmd of
        NoArguments \<Rightarrow> Inl (2, Usage)
      | TestArg v \<Rightarrow>
          if str_lower v \<in> set choices then Inr (str_lower v) else Inl (2, Usage))"

definition debug_stub :: "invocation \<Rightarrow> outcome" where
  "debug_stub cmd =
     (case parse_args cmd of
        Inl (code, out) \<Rightarrow> Exit code out
      | Inr test \<Rightarrow>
          if length (sys_argv cmd) = 1 then Exit 1 FullHelp
          else if test = ''mcp-yt-server'' then Dispatched ServerMain
          else if test = ''universal-client'' then Dispatched ClientRun
          else if test = ''yt-search'' then Dispatched SearchTest
          else Returned)"

section \<open>Concrete inputs\<close>

text \<open>
  A small installation used to evaluate the definitions: the project lives in \<open>/srv\<close>, the
  bootstrap module in \<open>/srv/src/modules/mcp_servers\<close>, the cache root is \<open>/srv/Cache\<close>, and
  the clock stands at ten days after the epoch. The file system has no symbolic links, and
  the numbers that occur are integers far below \<open>2^53\<close>, on which the rounding to a double
  changes nothing.
\<close>

definition example_cache :: path where
  "example_cache = \<lparr>absolute = True, parts = [''srv'', ''Cache'']\<rparr>"

definition example_module :: path where
  "example_module =
     \<lparr>absolute = True,
      parts = [''srv'', ''src'', ''modules'', ''mcp_servers'', ''mcp_yt_server.py'']\<rparr>"

definition example_world :: "(string \<rightharpoonup> node) \<Rightarrow> world" where
  "example_world content =
     \<lparr>environ = Map.empty, cwd = [''srv''], pw_dir = Map.empty, clock = 864000,
      fround = (\<lambda>x. x), realpath = normalise,
      fs = (\<lambda>d. Map.empty)(example_cache := content), logged = []\<rparr>"

definition old_file :: entry where
  \<comment> \<open>a regular file last modified at the epoch\<close>
  "old_file = \<lparr>is_file = True, st_mtime = 0, stat_raises = False, unlink_raises = False\<rparr>"

definition locked_file :: entry where
  \<comment> \<open>the same file where \<open>unlink\<close> raises PermissionError\<close>
  "locked_file = \<lparr>is_file = True, st_mtime = 0, stat_raises = False, unlink_raises = True\<rparr>"

definition fresh_file :: entry where
  \<comment> \<open>a regular file modified one day before the clock's time\<close>
  "fresh_file = \<lparr>is_file = True, st_mtime = 777600, stat_raises = False, unlink_raises = False\<rparr>"

definition no_plugins :: framework where
  "no_plugins =
     \<lparr>register_tools = (\<lambda>d m. m),
      register_prompts_from_markdown = (\<lambda>d m. m),
      register_prompts = (\<lambda>d m. m)\<rparr>"

definition example_unicode :: unicode_db where
  \<comment> \<open>an excerpt of the Unicode database: the no-break space and two other spaces, and
      the Arabic-Indic digits\<close>
  "example_unicode =
     \<lparr>u_isspace = (\<lambda>cp. cp \<in> set [133, 160, 8232]),
      u_todecimal = (\<lambda>cp. if 1632 \<le> cp \<and> cp \<le> 1641 then Some (cp - 1632) else None)\<rparr>"

section \<open>Facts about paths\<close>

lemma resolve_absolute: "absolute (resolve w p)"
  by (simp add: resolve_def)

lemma parents_1:
  "parents p (Suc 0) = (if 2 \<le> length (parts p) then Inr (parent (parent p)) else Inl IndexError)"
  by (auto simp: parents_def parent_def butlast_conv_take)

lemma resolve_cache_dir_resolved:
  "resolve_cache_dir w project = Inr c \<Longrightarrow> absolute c \<and> (\<exists>q. c = resolve w q)"
  by (auto simp: resolve_cache_dir_def resolve_absolute split: option.splits if_splits sum.splits)

lemma example_resolve_paths:
  "resolve_paths (example_world content) example_module =
     Inr \<lparr>modules_dir = \<lparr>absolute = True, parts = [''srv'', ''src'', ''modules'']\<rparr>,
          tools_dir = \<lparr>absolute = True, parts = [''srv'', ''src'', ''modules'', ''tools'']\<rparr>,
          prompts_dir = \<lparr>absolute = True, parts = [''srv'', ''src'', ''modules'', ''prompts'']\<rparr>,
          resources_dir = \<lparr>absolute = True, parts = [''srv'', ''src'', ''modules'', ''resources'']\<rparr>,
          project_dir = \<lparr>absolute = True, parts = [''srv'']\<rparr>,
          cache_dir = example_cache\<rparr>"
  by (simp add: resolve_paths_def parents_def example_module_def example_world_def resolve_def
        normalise_def norm_step_def joinpath_def Path_def resolve_cache_dir_def example_cache_def)

section \<open>Facts about the purge loops\<close>

lemma purge_entries_kept:
  "fst (purge_entries cutoff d es) = filter (\<lambda>x. purge_entry cutoff (snd x) \<noteq> Deleted) es"
  by (induction es) (auto simp: case_prod_beta Let_def split: verdict.splits)

lemma purge_entries_logged:
  "snd (purge_entries cutoff d es) =
     map (\<lambda>x. child d (fst x)) (filter (\<lambda>x. purge_entry cutoff (snd x) = Failed) es)"
  by (induction es) (auto simp: case_prod_beta Let_def split: verdict.splits)

lemma small_below_overflow: "(2::int) ^ 1022 \<le> float_overflow_bound"
  by (simp add: float_overflow_bound_def)

lemma purge_cutoff_in_range:
  "\<bar>days * 86400\<bar> < float_overflow_bound \<Longrightarrow>
     purge_cutoff w days = Inr (fround w (clock w - fround w (of_int (days * 86400))))"
  by (simp add: purge_cutoff_def int_to_float_def)

lemma example_cutoff: "purge_cutoff (example_world content) 7 = Inr 259200"
  by (simp add: purge_cutoff_def int_to_float_def float_overflow_bound_def example_world_def)

lemma purge_cache_audio:
  assumes "purge_cutoff w days = Inr c" and "fs w cache ''audio'' = Some (Dir es)"
  shows "fs (snd (purge_cache cache days w)) cache ''audio'' =
           Some (Dir (filter (\<lambda>x. purge_entry c (snd x) \<noteq> Deleted) es))"
  using assms
  by (simp add: purge_cache_def Let_def case_prod_beta purge_entries_kept
           split: option.splits node.splits)

lemma purge_cache_transcripts:
  assumes "purge_cutoff w days = Inr c"
    and "fs w cache ''transcripts'' = Some (Dir es)" and "fs w cache ''audio'' \<noteq> Some Unlistable"
  shows "fst (purge_cache cache days w) = None"
    and "fs (snd (purge_cache cache days w)) cache ''transcripts'' =
           Some (Dir (filter (\<lambda>x. purge_entry c (snd x) \<noteq> Deleted) es))"
  using assms
  by (simp_all add: purge_cache_def Let_def case_prod_beta purge_entries_kept
           split: option.splits node.splits)

section \<open>The cache purge: claims\<close>

text \<open>
  Claim C1 says that a purge never removes a file of the \<open>audio\<close> subdirectory, whatever its
  age and the retention window. The loop of \<open>purge_cache\<close> runs over \<open>audio\<close> as well as
  over \<open>transcripts\<close>: with the default window of seven days, a file of \<open>audio\<close> last
  modified ten days ago is removed, and the purge returns normally with the directory empty.
\<close>

theorem purge_cache_deletes_audio:
  "fs (example_world [''audio'' \<mapsto> Dir [(''clip.wav'', old_file)]]) example_cache ''audio''
     = Some (Dir [(''clip.wav'', old_file)])
   \<and> purge_cache example_cache 7 (example_world [''audio'' \<mapsto> Dir [(''clip.wav'', old_file)]])
     = (None, example_world [''audio'' \<mapsto> Dir []])"
  by (simp add: purge_cache_def example_cutoff)
     (simp add: example_world_def purge_entry_def old_file_def Let_def)

text \<open>
  Claim C7 says that \<open>purge_cache\<close> never raises an OSError to its caller, so that the purge
  never fails the startup sequence. The enumeration \<open>d.iterdir()\<close> stands outside the
  \<open>try\<close> block: when \<open>transcripts\<close> exists and cannot be enumerated, the OSError leaves
  \<open>purge_cache\<close>, and \<open>main\<close> ends with it instead of starting the listener.
\<close>

theorem purge_cache_raises_OSError:
  "fst (purge_cache example_cache 7 (example_world [''transcripts'' \<mapsto> Unlistable])) = Some OSError
   \<and> fst (main fw example_module \<lparr>host = ''127.0.0.1'', port = 8085, purge_cache_days = 7\<rparr>
            (example_world [''transcripts'' \<mapsto> Unlistable])) = Raised OSError"
proof -
  have purge: "fst (purge_cache example_cache 7 (example_world [''transcripts'' \<mapsto> Unlistable]))
                 = Some OSError"
    by (simp add: purge_cache_def example_cutoff) (simp add: example_world_def)
  then show ?thesis
    by (simp add: main_def launch_server_def example_resolve_paths case_prod_beta
          split: option.splits)
qed

text \<open>
  Claim C2, as amended: for every retention window \<open>d \<ge> 0\<close> with \<open>d * 86400\<close> and the clock
  below \<open>2^1022\<close> in magnitude, when \<open>transcripts\<close> is a directory and the enumeration of
  \<open>audio\<close> does not raise, \<open>purge_cache\<close> computes its cutoff, \<open>now - d * 86400\<close> seconds in
  floating-point arithmetic, and returns normally; it removes every regular file of
  \<open>transcripts\<close> whose modification time is older than that cutoff and for which neither
  \<open>stat\<close> nor \<open>unlink\<close> raises an OSError, and it retains every regular file whose
  modification time is newer than that cutoff.
\<close>

theorem purge_cache_transcripts_retention:
  assumes "0 \<le> days"
    and "days * 86400 < 2 ^ 1022"
    and "\<bar>clock w\<bar> < 2 ^ 1022"
    and "fs w cache ''transcripts'' = Some (Dir es)"
    and "fs w cache ''audio'' \<noteq> Some Unlistable"
    and "(n, e) \<in> set es"
    and "is_file e"
  shows "\<exists>c. purge_cutoff w days = Inr c
           \<and> c = fround w (clock w - fround w (of_int (days * 86400)))
           \<and> fst (purge_cache cache days w) = None
           \<and> (\<exists>es'. fs (snd (purge_cache cache days w)) cache ''transcripts'' = Some (Dir es')
                 \<and> (st_mtime e < c \<and> \<not> stat_raises e \<and> \<not> unlink_raises e \<longrightarrow> (n, e) \<notin> set es')
                 \<and> (c < st_mtime e \<longrightarrow> (n, e) \<in> set es'))"
proof -
  let ?c = "fround w (clock w - fround w (of_int (days * 86400)))"
  let ?keep = "\<lambda>x. purge_entry ?c (snd x) \<noteq> Deleted"
  have "\<bar>days * 86400\<bar> < float_overflow_bound"
    using assms(1,2) small_below_overflow by linarith
  then have cut: "purge_cutoff w days = Inr ?c"
    by (rule purge_cutoff_in_range)
  have ret: "fst (purge_cache cache days w) = None"
    using cut assms(4,5) by (rule purge_cache_transcripts(1))
  have dir: "fs (snd (purge_cache cache days w)) cache ''transcripts'' = Some (Dir (filter ?keep es))"
    using cut assms(4,5) by (rule purge_cache_transcripts(2))
  have old: "(n, e) \<notin> set (filter ?keep es)"
    if "st_mtime e < ?c \<and> \<not> stat_raises e \<and> \<not> unlink_raises e"
    using that assms(7) by (simp add: purge_entry_def)
  have new: "(n, e) \<in> set (filter ?keep es)" if "?c < st_mtime e"
    using that assms(6) by (simp add: purge_entry_def)
  from cut ret dir old new show ?thesis by blast
qed

theorem purge_cache_transcripts_retention_witness:
  "(0::int) \<le> 7
   \<and> purge_cutoff (example_world [''transcripts'' \<mapsto> Dir [(''old.json'', old_file), (''new.json'', fresh_file)]]) 7
       = Inr 259200
   \<and> fst (purge_cache example_cache 7
            (example_world [''transcripts'' \<mapsto> Dir [(''old.json'', old_file), (''new.json'', fresh_file)]]))
       = None
   \<and> (\<exists>es'. fs (snd (purge_cache example_cache 7
            (example_world [''transcripts'' \<mapsto> Dir [(''old.json'', old_file), (''new.json'', fresh_file)]])))
          example_cache ''transcripts'' = Some (Dir es')
        \<and> (''old.json'', old_file) \<notin> set es'
        \<and> (''new.json'', fresh_file) \<in> set es')"
proof -
  let ?w = "example_world [''transcripts'' \<mapsto> Dir [(''old.json'', old_file), (''new.json'', fresh_file)]]"
  let ?es = "[(''old.json'', old_file), (''new.json'', fresh_file)]"
  have h: "(0::int) \<le> 7" "(7::int) * 86400 < 2 ^ 1022" "\<bar>clock ?w\<bar> < 2 ^ 1022"
    "fs ?w example_cache ''transcripts'' = Some (Dir ?es)"
    "fs ?w example_cache ''audio'' \<noteq> Some Unlistable"
    "is_file old_file" "is_file fresh_file"
    by (simp_all add: example_world_def old_file_def fresh_file_def)
  have o: "(''old.json'', old_file) \<in> set ?es" and f: "(''new.json'', fresh_file) \<in> set ?es"
    by simp_all
  have m: "st_mtime old_file < 259200" "\<not> stat_raises old_file" "\<not> unlink_raises old_file"
    "259200 < st_mtime fresh_file"
    by (simp_all add: old_file_def fresh_file_def)
  from purge_cache_transcripts_retention [OF h(1-5) o h(6)]
       purge_cache_transcripts_retention [OF h(1-5) f h(7)] m
  show ?thesis
    by (auto simp: example_cutoff)
qed

text \<open>
  As stated, claim C2 fails: an old regular file of \<open>transcripts\<close> whose \<open>unlink\<close> raises
  stays in the directory (the handler logs it and goes on), and when \<open>audio\<close> cannot be
  enumerated the purge ends before it reaches \<open>transcripts\<close>.
\<close>

theorem purge_cache_transcripts_counterexample:
  "fs (example_world [''transcripts'' \<mapsto> Dir [(''t.json'', locked_file)]]) example_cache ''transcripts''
     = Some (Dir [(''t.json'', locked_file)])
   \<and> is_file locked_file
   \<and> st_mtime locked_file
       < clock (example_world [''transcripts'' \<mapsto> Dir [(''t.json'', locked_file)]]) - of_int (7 * 86400)
   \<and> fs (snd (purge_cache example_cache 7 (example_world [''transcripts'' \<mapsto> Dir [(''t.json'', locked_file)]])))
        example_cache ''transcripts''
     = Some (Dir [(''t.json'', locked_file)])
   \<and> is_file old_file
   \<and> st_mtime old_file
       < clock (example_world [''audio'' \<mapsto> Unlistable, ''transcripts'' \<mapsto> Dir [(''t.json'', old_file)]])
           - of_int (7 * 86400)
   \<and> fs (snd (purge_cache example_cache 7
          (example_world [''audio'' \<mapsto> Unlistable, ''transcripts'' \<mapsto> Dir [(''t.json'', old_file)]])))
        example_cache ''transcripts''
     = Some (Dir [(''t.json'', old_file)])"
  by (simp add: purge_cache_def example_cutoff)
     (simp add: example_world_def purge_entry_def locked_file_def old_file_def Let_def)

text \<open>
  Claim C9, as amended: when \<open>purge_cache\<close> is called directly with a negative \<open>days\<close>, with
  \<open>|days| * 86400\<close> and the clock below \<open>2^1022\<close> in magnitude, the cutoff it computes is
  \<open>now + |days| * 86400\<close> seconds up to the rounding of the floating-point arithmetic; when
  that rounding error is smaller than \<open>|days| * 86400\<close> seconds, the cutoff lies in the
  future, so every regular direct-entry file of \<open>audio\<close> and of \<open>transcripts\<close> whose
  modification time is not in the future, and for which neither \<open>stat\<close> nor \<open>unlink\<close> raises
  an OSError, is deleted (for \<open>transcripts\<close>, provided the enumeration of \<open>audio\<close> does not
  raise); \<open>main\<close>, given the same negative value, leaves the world as it is.
\<close>

theorem purge_cache_negative_days:
  assumes "days < 0"
    and "\<bar>days\<bar> * 86400 < 2 ^ 1022"
    and "\<bar>clock w\<bar> < 2 ^ 1022"
    and "\<bar>fround w (clock w - fround w (of_int (days * 86400)))
           - (clock w + of_int (\<bar>days\<bar> * 86400))\<bar> < of_int (\<bar>days\<bar> * 86400)"
    and "rel = ''audio'' \<or> rel = ''transcripts''"
    and "fs w cache rel = Some (Dir es)"
    and "fs w cache ''audio'' \<noteq> Some Unlistable"
    and "(n, e) \<in> set es"
    and "is_file e"
    and "st_mtime e \<le> clock w"
    and "\<not> stat_raises e"
    and "\<not> unlink_raises e"
  shows "\<exists>c. purge_cutoff w days = Inr c
           \<and> \<bar>c - (clock w + of_int (\<bar>days\<bar> * 86400))\<bar> < of_int (\<bar>days\<bar> * 86400)
           \<and> clock w < c
           \<and> (\<exists>es'. fs (snd (purge_cache cache days w)) cache rel = Some (Dir es') \<and> (n, e) \<notin> set es')
           \<and> snd (main fw module_file \<lparr>host = h, port = p, purge_cache_days = days\<rparr> w) = w"
proof -
  let ?c = "fround w (clock w - fround w (of_int (days * 86400)))"
  let ?keep = "\<lambda>x. purge_entry ?c (snd x) \<noteq> Deleted"
  have "\<bar>days * 86400\<bar> < float_overflow_bound"
    using assms(1,2) small_below_overflow by linarith
  then have cut: "purge_cutoff w days = Inr ?c"
    by (rule purge_cutoff_in_range)
  have future: "clock w < ?c"
    using assms(4) by linarith
  have gone: "(n, e) \<notin> set (filter ?keep es)"
    using future assms(9-12) by (simp add: purge_entry_def)
  have dir: "fs (snd (purge_cache cache days w)) cache rel = Some (Dir (filter ?keep es))"
    using assms(5)
  proof
    assume "rel = ''audio''"
    with cut assms(6) show ?thesis by (simp add: purge_cache_audio)
  next
    assume "rel = ''transcripts''"
    with cut assms(6,7) show ?thesis by (simp add: purge_cache_transcripts(2))
  qed
  have cli: "snd (main fw module_file \<lparr>host = h, port = p, purge_cache_days = days\<rparr> w) = w"
    using assms(1)
    by (simp add: main_def launch_server_def Let_def split: sum.splits)
  from cut assms(4) future gone dir cli show ?thesis by blast
qed

theorem purge_cache_negative_days_witness:
  "(-1::int) < 0
   \<and> purge_cutoff (example_world [''audio'' \<mapsto> Dir [(''clip.wav'', fresh_file)]]) (-1) = Inr 950400
   \<and> (\<exists>es'. fs (snd (purge_cache example_cache (-1)
                     (example_world [''audio'' \<mapsto> Dir [(''clip.wav'', fresh_file)]])))
              example_cache ''audio'' = Some (Dir es')
          \<and> (''clip.wav'', fresh_file) \<notin> set es')
   \<and> snd (main no_plugins example_module \<lparr>host = ''127.0.0.1'', port = 8085, purge_cache_days = -1\<rparr>
            (example_world [''audio'' \<mapsto> Dir [(''clip.wav'', fresh_file)]]))
       = example_world [''audio'' \<mapsto> Dir [(''clip.wav'', fresh_file)]]"
proof -
  let ?w = "example_world [''audio'' \<mapsto> Dir [(''clip.wav'', fresh_file)]]"
  have cut: "purge_cutoff ?w (-1) = Inr 950400"
    by (simp add: purge_cutoff_def int_to_float_def float_overflow_bound_def example_world_def)
  have h: "(-1::int) < 0" "\<bar>-1::int\<bar> * 86400 < 2 ^ 1022" "\<bar>clock ?w\<bar> < 2 ^ 1022"
    "\<bar>fround ?w (clock ?w - fround ?w (of_int (-1 * 86400)))
       - (clock ?w + of_int (\<bar>-1\<bar> * 86400))\<bar> < of_int (\<bar>-1\<bar> * 86400)"
    "''audio'' = ''audio'' \<or> ''audio'' = ''transcripts''"
    "fs ?w example_cache ''audio'' = Some (Dir [(''clip.wav'', fresh_file)])"
    "fs ?w example_cache ''audio'' \<noteq> Some Unlistable"
    "(''clip.wav'', fresh_file) \<in> set [(''clip.wav'', fresh_file)]"
    "is_file fresh_file" "st_mtime fresh_file \<le> clock ?w"
    "\<not> stat_raises fresh_file" "\<not> unlink_raises fresh_file"
    by (simp_all add: example_world_def fresh_file_def)
  from purge_cache_negative_days [OF h, of no_plugins example_module "''127.0.0.1''" 8085] cut
  show ?thesis by auto
qed

text \<open>
  As stated, claim C9 fails: with \<open>days = -1\<close>, a regular file of \<open>audio\<close> that was modified in
  the past and whose \<open>unlink\<close> raises is still there after the purge; and with
  \<open>days = -10^304\<close> the conversion of \<open>days * 86400\<close> to a double raises OverflowError before
  any file is looked at.
\<close>

theorem purge_cache_negative_days_counterexample:
  "fs (example_world [''audio'' \<mapsto> Dir [(''clip.wav'', locked_file)]]) example_cache ''audio''
     = Some (Dir [(''clip.wav'', locked_file)])
   \<and> is_file locked_file
   \<and> st_mtime locked_file \<le> clock (example_world [''audio'' \<mapsto> Dir [(''clip.wav'', locked_file)]])
   \<and> fs (snd (purge_cache example_cache (-1)
              (example_world [''audio'' \<mapsto> Dir [(''clip.wav'', locked_file)]])))
        example_cache ''audio''
     = Some (Dir [(''clip.wav'', locked_file)])
   \<and> is_file old_file
   \<and> st_mtime old_file \<le> clock (example_world [''audio'' \<mapsto> Dir [(''clip.wav'', old_file)]])
   \<and> \<not> stat_raises old_file \<and> \<not> unlink_raises old_file
   \<and> purge_cache example_cache (- (10 ^ 304)) (example_world [''audio'' \<mapsto> Dir [(''clip.wav'', old_file)]])
     = (Some OverflowError, example_world [''audio'' \<mapsto> Dir [(''clip.wav'', old_file)]])"
proof -
  have cut: "purge_cutoff w (-1) = Inr (fround w (clock w - fround w (of_int (-1 * 86400))))" for w
    by (rule purge_cutoff_in_range) (simp add: float_overflow_bound_def)
  have big: "purge_cache example_cache (- (10 ^ 304)) w = (Some OverflowError, w)" for w
    by (simp add: purge_cache_def purge_cutoff_def int_to_float_def float_overflow_bound_def)
  have locked: "fs (snd (purge_cache example_cache (-1)
              (example_world [''audio'' \<mapsto> Dir [(''clip.wav'', locked_file)]])))
        example_cache ''audio''
     = Some (Dir [(''clip.wav'', locked_file)])"
    by (simp add: purge_cache_def cut)
       (simp add: example_world_def purge_entry_def locked_file_def Let_def)
  have facts: "fs (example_world [''audio'' \<mapsto> Dir [(''clip.wav'', locked_file)]]) example_cache ''audio''
     = Some (Dir [(''clip.wav'', locked_file)])"
    "is_file locked_file"
    "st_mtime locked_file \<le> clock (example_world [''audio'' \<mapsto> Dir [(''clip.wav'', locked_file)]])"
    "is_file old_file"
    "st_mtime old_file \<le> clock (example_world [''audio'' \<mapsto> Dir [(''clip.wav'', old_file)]])"
    "\<not> stat_raises old_file" "\<not> unlink_raises old_file"
    by (simp_all add: example_world_def locked_file_def old_file_def)
  from facts locked big show ?thesis by blast
qed

section \<open>Startup: claims\<close>

text \<open>
  Claim C3: for every host and port, \<open>main\<close> with a negative \<open>--purge-cache-days\<close> (such as
  \<open>-1\<close>) performs no purge: the world in which the listener starts, the cache directory
  and the log included, is the world \<open>main\<close> was called in, and when the paths resolve the
  startup ends with the listener started on that host and port.
\<close>

theorem main_negative_days_no_mutation:
  "purge_cache_days args < 0 \<Longrightarrow>
     snd (main fw module_file args w) = w
     \<and> (\<forall>paths. resolve_paths w module_file = Inr paths \<longrightarrow>
            fst (main fw module_file args w)
              = Listening (attach_everything fw create_server paths) (host args) (port args))"
  by (simp add: main_def launch_server_def Let_def split: sum.splits)

theorem main_negative_days_no_mutation_witness:
  "purge_cache_days \<lparr>host = ''0.0.0.0'', port = 9000, purge_cache_days = -1\<rparr> < 0
   \<and> snd (main no_plugins example_module \<lparr>host = ''0.0.0.0'', port = 9000, purge_cache_days = -1\<rparr>
            (example_world [''transcripts'' \<mapsto> Dir [(''t.json'', old_file)]]))
       = example_world [''transcripts'' \<mapsto> Dir [(''t.json'', old_file)]]
   \<and> fst (main no_plugins example_module \<lparr>host = ''0.0.0.0'', port = 9000, purge_cache_days = -1\<rparr>
            (example_world [''transcripts'' \<mapsto> Dir [(''t.json'', old_file)]]))
       = Listening create_server ''0.0.0.0'' 9000"
  using main_negative_days_no_mutation [of "\<lparr>host = ''0.0.0.0'', port = 9000, purge_cache_days = -1\<rparr>"
      no_plugins example_module "example_world [''transcripts'' \<mapsto> Dir [(''t.json'', old_file)]]"]
    example_resolve_paths [of "[''transcripts'' \<mapsto> Dir [(''t.json'', old_file)]]"]
  by (simp add: attach_everything_def no_plugins_def)

section \<open>Path resolution: claims\<close>

text \<open>
  Claim C4, as amended: for every project root, when \<open>MCP_CACHE_DIR\<close> is set to a non-empty
  value whose tilde expansion succeeds, \<open>resolve_cache_dir\<close> returns the tilde-expanded,
  absolute, resolved form of that value; when the tilde expansion fails (the value starts
  with a tilde and the home directory is unknown) it raises RuntimeError; when the variable
  is unset it returns the resolved path \<open><project_root>/Cache\<close>. Every path it returns is
  absolute and a result of \<open>resolve()\<close>.
\<close>

theorem resolve_cache_dir_override_or_default:
  "(\<forall>v p. environ w ''MCP_CACHE_DIR'' = Some v \<and> v \<noteq> [] \<and> expanduser w (Path v) = Inr p \<longrightarrow>
        resolve_cache_dir w project = Inr (resolve w p))
   \<and> (\<forall>v. environ w ''MCP_CACHE_DIR'' = Some v \<and> v \<noteq> [] \<and> expanduser w (Path v) = Inl RuntimeError \<longrightarrow>
        resolve_cache_dir w project = Inl RuntimeError)
   \<and> (environ w ''MCP_CACHE_DIR'' = None \<longrightarrow>
        resolve_cache_dir w project = Inr (resolve w (joinpath project ''Cache'')))
   \<and> (\<forall>c. resolve_cache_dir w project = Inr c \<longrightarrow> absolute c \<and> (\<exists>q. c = resolve w q))"
proof -
  have a: "\<forall>v p. environ w ''MCP_CACHE_DIR'' = Some v \<and> v \<noteq> [] \<and> expanduser w (Path v) = Inr p \<longrightarrow>
        resolve_cache_dir w project = Inr (resolve w p)"
    by (simp add: resolve_cache_dir_def)
  have b: "\<forall>v. environ w ''MCP_CACHE_DIR'' = Some v \<and> v \<noteq> [] \<and> expanduser w (Path v) = Inl RuntimeError \<longrightarrow>
        resolve_cache_dir w project = Inl RuntimeError"
    by (simp add: resolve_cache_dir_def)
  have c: "environ w ''MCP_CACHE_DIR'' = None \<longrightarrow>
        resolve_cache_dir w project = Inr (resolve w (joinpath project ''Cache''))"
    by (simp add: resolve_cache_dir_def)
  have d: "\<forall>c. resolve_cache_dir w project = Inr c \<longrightarrow> absolute c \<and> (\<exists>q. c = resolve w q)"
    using resolve_cache_dir_resolved by blast
  from a b c d show ?thesis by blast
qed

theorem resolve_cache_dir_override_or_default_witness:
  "environ ((example_world Map.empty)\<lparr>environ := [''MCP_CACHE_DIR'' \<mapsto> ''~/yt/../cache'',
                                                 ''HOME'' \<mapsto> ''/home/u/'']\<rparr>) ''MCP_CACHE_DIR''
     = Some ''~/yt/../cache''
   \<and> ''~/yt/../cache'' \<noteq> []
   \<and> expanduser ((example_world Map.empty)\<lparr>environ := [''MCP_CACHE_DIR'' \<mapsto> ''~/yt/../cache'',
                                                 ''HOME'' \<mapsto> ''/home/u/'']\<rparr>) (Path ''~/yt/../cache'')
       = Inr \<lparr>absolute = True, parts = [''home'', ''u'', ''yt'', ''..'', ''cache'']\<rparr>
   \<and> resolve_cache_dir ((example_world Map.empty)\<lparr>environ := [''MCP_CACHE_DIR'' \<mapsto> ''~/yt/../cache'',
                                                 ''HOME'' \<mapsto> ''/home/u/'']\<rparr>)
         \<lparr>absolute = True, parts = [''srv'']\<rparr>
       = Inr \<lparr>absolute = True, parts = [''home'', ''u'', ''cache'']\<rparr>
   \<and> environ (example_world Map.empty) ''MCP_CACHE_DIR'' = None
   \<and> resolve_cache_dir (example_world Map.empty) \<lparr>absolute = True, parts = [''srv'']\<rparr>
       = Inr \<lparr>absolute = True, parts = [''srv'', ''Cache'']\<rparr>"
  using resolve_cache_dir_override_or_default
      [of "(example_world Map.empty)\<lparr>environ := [''MCP_CACHE_DIR'' \<mapsto> ''~/yt/../cache'',
                                                 ''HOME'' \<mapsto> ''/home/u/'']\<rparr>"
          "\<lparr>absolute = True, parts = [''srv'']\<rparr>"]
    resolve_cache_dir_override_or_default
      [of "example_world Map.empty" "\<lparr>absolute = True, parts = [''srv'']\<rparr>"]
  by (simp add: example_world_def expanduser_def os_expanduser_def rstrip_sep_def Path_def
        resolve_def normalise_def norm_step_def joinpath_def)

text \<open>
  As stated, claim C4 fails: with \<open>MCP_CACHE_DIR\<close> set to \<open>~nosuchuser/x\<close> and no such user in
  the password database, the tilde expansion raises RuntimeError and \<open>resolve_cache_dir\<close>
  returns no path.
\<close>

theorem resolve_cache_dir_override_or_default_counterexample:
  "environ ((example_world Map.empty)\<lparr>environ := [''MCP_CACHE_DIR'' \<mapsto> ''~nosuchuser/x'']\<rparr>)
       ''MCP_CACHE_DIR'' = Some ''~nosuchuser/x''
   \<and> ''~nosuchuser/x'' \<noteq> []
   \<and> resolve_cache_dir ((example_world Map.empty)\<lparr>environ := [''MCP_CACHE_DIR'' \<mapsto> ''~nosuchuser/x'']\<rparr>)
         \<lparr>absolute = True, parts = [''srv'']\<rparr>
       = Inl RuntimeError"
  by (simp add: example_world_def resolve_cache_dir_def expanduser_def os_expanduser_def Path_def)

text \<open>
  Claim C10: when \<open>MCP_CACHE_DIR\<close> is set to the empty string, \<open>resolve_cache_dir\<close> returns
  the resolved path \<open><project_root>/Cache\<close>, exactly what it returns when the variable is
  removed from the environment.
\<close>

theorem resolve_cache_dir_empty_override:
  "environ w ''MCP_CACHE_DIR'' = Some [] \<Longrightarrow>
     resolve_cache_dir w project = Inr (resolve w (joinpath project ''Cache''))
     \<and> resolve_cache_dir w project
         = resolve_cache_dir (w\<lparr>environ := (environ w)(''MCP_CACHE_DIR'' := None)\<rparr>) project"
  by (simp add: resolve_cache_dir_def resolve_def)

theorem resolve_cache_dir_empty_override_witness:
  "environ ((example_world Map.empty)\<lparr>environ := [''MCP_CACHE_DIR'' \<mapsto> []]\<rparr>) ''MCP_CACHE_DIR'' = Some []
   \<and> resolve_cache_dir ((example_world Map.empty)\<lparr>environ := [''MCP_CACHE_DIR'' \<mapsto> []]\<rparr>)
         \<lparr>absolute = True, parts = [''srv'']\<rparr>
       = Inr \<lparr>absolute = True, parts = [''srv'', ''Cache'']\<rparr>"
  using resolve_cache_dir_empty_override
      [of "(example_world Map.empty)\<lparr>environ := [''MCP_CACHE_DIR'' \<mapsto> []]\<rparr>"
          "\<lparr>absolute = True, parts = [''srv'']\<rparr>"]
  by (simp add: example_world_def Path_def resolve_def normalise_def norm_step_def joinpath_def)

text \<open>
  Claim C8, as amended: for every location of the bootstrap module that has at least two
  name components, and whose resolved second ancestor has at least two name components
  itself, \<open>resolve_paths\<close> returns (provided the resolution of the cache root does not raise)
  a ServerPaths record in which the modules directory is the resolved parent of the parent
  of that file, the tools, prompts and resources directories are the resolved children
  \<open>tools\<close>, \<open>prompts\<close> and \<open>resources\<close> of the modules directory, the project root is the
  resolved path two levels above the modules directory, the cache root is what
  \<open>resolve_cache_dir\<close> gives for the project root, and all six paths are absolute and results
  of \<open>resolve()\<close>.
\<close>

theorem resolve_paths_layout:
  assumes "2 \<le> length (parts this_file)"
    and "2 \<le> length (parts (resolve w (parent (parent this_file))))"
    and "resolve_cache_dir w (resolve w (parent (parent (resolve w (parent (parent this_file))))))
           = Inr c"
  shows "\<exists>r. resolve_paths w this_file = Inr r
           \<and> modules_dir r = resolve w (parent (parent this_file))
           \<and> tools_dir r = resolve w (joinpath (modules_dir r) ''tools'')
           \<and> prompts_dir r = resolve w (joinpath (modules_dir r) ''prompts'')
           \<and> resources_dir r = resolve w (joinpath (modules_dir r) ''resources'')
           \<and> project_dir r = resolve w (parent (parent (modules_dir r)))
           \<and> resolve_cache_dir w (project_dir r) = Inr (cache_dir r)
           \<and> cache_dir r = c \<and> (\<exists>q. cache_dir r = resolve w q)
           \<and> absolute (modules_dir r) \<and> absolute (tools_dir r)
           \<and> absolute (prompts_dir r) \<and> absolute (resources_dir r)
           \<and> absolute (project_dir r) \<and> absolute (cache_dir r)"
proof -
  let ?m = "resolve w (parent (parent this_file))"
  let ?pr = "resolve w (parent (parent ?m))"
  have c: "absolute c \<and> (\<exists>q. c = resolve w q)"
    using assms(3) by (rule resolve_cache_dir_resolved)
  have "resolve_paths w this_file =
          Inr \<lparr>modules_dir = ?m, tools_dir = resolve w (joinpath ?m ''tools''),
               prompts_dir = resolve w (joinpath ?m ''prompts''),
               resources_dir = resolve w (joinpath ?m ''resources''),
               project_dir = ?pr, cache_dir = c\<rparr>"
    using assms by (simp add: resolve_paths_def parents_1 Let_def)
  with c assms(3) show ?thesis by (simp add: resolve_absolute)
qed

theorem resolve_paths_layout_witness:
  "2 \<le> length (parts example_module)
   \<and> (\<exists>r. resolve_paths (example_world Map.empty) example_module = Inr r
         \<and> modules_dir r = \<lparr>absolute = True, parts = [''srv'', ''src'', ''modules'']\<rparr>
         \<and> tools_dir r = \<lparr>absolute = True, parts = [''srv'', ''src'', ''modules'', ''tools'']\<rparr>
         \<and> project_dir r = \<lparr>absolute = True, parts = [''srv'']\<rparr>
         \<and> cache_dir r = example_cache)"
proof -
  have a: "2 \<le> length (parts example_module)"
    by (simp add: example_module_def)
  have m: "resolve (example_world Map.empty) (parent (parent example_module))
             = \<lparr>absolute = True, parts = [''srv'', ''src'', ''modules'']\<rparr>"
    by (simp add: example_module_def example_world_def parent_def resolve_def normalise_def
          norm_step_def)
  have b: "2 \<le> length (parts (resolve (example_world Map.empty) (parent (parent example_module))))"
    by (simp add: m)
  have pr: "resolve (example_world Map.empty)
              (parent (parent \<lparr>absolute = True, parts = [''srv'', ''src'', ''modules'']\<rparr>))
            = \<lparr>absolute = True, parts = [''srv'']\<rparr>"
    by (simp add: example_world_def parent_def resolve_def normalise_def norm_step_def)
  have t: "resolve (example_world Map.empty)
              (joinpath \<lparr>absolute = True, parts = [''srv'', ''src'', ''modules'']\<rparr> ''tools'')
            = \<lparr>absolute = True, parts = [''srv'', ''src'', ''modules'', ''tools'']\<rparr>"
    by (simp add: example_world_def joinpath_def Path_def resolve_def normalise_def norm_step_def)
  have c: "resolve_cache_dir (example_world Map.empty)
             (resolve (example_world Map.empty)
                (parent (parent (resolve (example_world Map.empty) (parent (parent example_module))))))
           = Inr example_cache"
    unfolding m pr
    by (simp add: resolve_cache_dir_def example_world_def joinpath_def Path_def
          resolve_def normalise_def norm_step_def example_cache_def)
  show ?thesis
    using resolve_paths_layout [OF a b c] a by (auto simp: m pr t)
qed

text \<open>
  As stated, claim C8 fails for a file directly under the root: \<open>this_file.parents[1]\<close>
  raises IndexError, and no record is returned.
\<close>

theorem resolve_paths_layout_counterexample:
  "resolve_paths (example_world Map.empty) \<lparr>absolute = True, parts = [''mcp_yt_server.py'']\<rparr>
     = Inl IndexError"
  by (simp add: resolve_paths_def parents_def)

section \<open>Facts about the reading of integers\<close>

lemma int_digits_error: "int_digits acc s = Inl e \<Longrightarrow> e = ValueError"
  by (induction acc s rule: int_digits.induct) (auto split: if_splits)

lemma int_digits_chars:
  "int_digits acc s = Inr n \<Longrightarrow> list_all (\<lambda>c. is_digit c \<or> c = 95) s"
  by (induction acc s rule: int_digits.induct) (auto split: if_splits)

lemma int_unsigned_error: "int_unsigned s = Inl e \<Longrightarrow> e = ValueError"
  by (auto simp: int_unsigned_def split: list.splits if_splits dest: int_digits_error)

lemma int_unsigned_chars:
  "int_unsigned s = Inr n \<Longrightarrow> list_all (\<lambda>c. is_digit c \<or> c = 95) s \<and> list_ex is_digit s"
  by (auto simp: int_unsigned_def split: list.splits if_splits dest: int_digits_chars)

lemma py_int_error: "py_int db v = Inl e \<Longrightarrow> e = ValueError"
  by (auto simp: py_int_def split: list.splits if_splits sum.splits dest: int_unsigned_error)

lemma dropWhile_cases: "x \<in> set xs \<Longrightarrow> x \<in> set (dropWhile P xs) \<or> P x"
  by (induction xs) (auto split: if_splits)

lemma strip_cases: "x \<in> set s \<Longrightarrow> x \<in> set (strip s) \<or> is_space x"
proof -
  assume "x \<in> set s"
  then have "x \<in> set (dropWhile is_space s) \<or> is_space x"
    by (rule dropWhile_cases)
  then show ?thesis
  proof
    assume "x \<in> set (dropWhile is_space s)"
    then have "x \<in> set (rev (dropWhile is_space s))" by simp
    then have "x \<in> set (dropWhile is_space (rev (dropWhile is_space s))) \<or> is_space x"
      by (rule dropWhile_cases)
    then show ?thesis by (auto simp: strip_def)
  qed simp
qed

lemma strip_subset: "set (strip s) \<subseteq> set s"
  by (auto simp: strip_def dest!: set_dropWhileD)

lemma py_int_chars:
  assumes "py_int db v = Inr n"
  shows "list_all numeral_char (ascii_transform db v) \<and> list_ex is_digit (ascii_transform db v)"
proof -
  let ?t = "ascii_transform db v"
  obtain c cs where st: "strip ?t = c # cs"
    using assms by (auto simp: py_int_def split: list.splits)
  have body: "list_all numeral_char (strip ?t) \<and> list_ex is_digit (strip ?t)"
  proof (cases "c = 45 \<or> c = 43")
    case True
    then obtain m where "int_unsigned cs = Inr m"
      using assms st by (auto simp: py_int_def split: sum.splits if_splits)
    from int_unsigned_chars [OF this] True st show ?thesis
      by (auto simp: numeral_char_def list_all_iff list_ex_iff)
  next
    case False
    then have "int_unsigned (c # cs) = Inr n"
      using assms st by (auto simp: py_int_def)
    from int_unsigned_chars [OF this] st show ?thesis
      by (auto simp: numeral_char_def list_all_iff list_ex_iff)
  qed
  have "numeral_char x" if "x \<in> set ?t" for x
    using strip_cases [OF that] body by (auto simp: list_all_iff numeral_char_def)
  moreover have "list_ex is_digit ?t"
    using body strip_subset [of ?t] by (auto simp: list_ex_iff)
  ultimately show ?thesis by (simp add: list_all_iff)
qed

lemma non_numeric_rejected: "non_numeric db v \<Longrightarrow> py_int db v = Inl ValueError"
proof (cases "py_int db v")
  case (Inl e)
  then show ?thesis using py_int_error by blast
next
  case (Inr n)
  assume "non_numeric db v"
  with py_int_chars [OF Inr] show ?thesis
    by (auto simp: non_numeric_def list_all_iff list_ex_iff)
qed

lemma ascii_transform_ascii: "list_all (\<lambda>c. c < 127) v \<Longrightarrow> ascii_transform db v = v"
  by (induction v) simp_all

lemma long_numeral_rejected:
  assumes "int_max_str_digits < n"
  shows "py_int db (replicate n 49) = Inl ValueError"
proof -
  obtain k where n: "n = Suc k"
    using assms by (cases n) simp_all
  have t: "ascii_transform db (replicate n 49) = replicate n 49"
    by (rule ascii_transform_ascii) (simp add: list_all_iff)
  have s: "strip (replicate n 49) = replicate n 49"
    by (simp add: strip_def is_space_def)
  have d: "filter is_digit (replicate n 49) = replicate n 49"
    by (simp add: is_digit_def)
  have "int_unsigned (replicate n 49) = Inl ValueError"
    using assms d unfolding n by (simp add: int_unsigned_def is_digit_def)
  then show ?thesis
    unfolding py_int_def t s by (simp add: n)
qed

section \<open>Command lines: claims\<close>

text \<open>
  Claim C5: \<open>port_type\<close> accepts the boundary values 1 and 65535 and returns them as
  integers; it rejects 0, 65536 and every input that is not a numeral (it holds a character
  that cannot stand in a decimal numeral, or no digit; more generally, \<open>int\<close> does not read
  a number from it) by raising \<open>argparse.ArgumentTypeError\<close>; whatever the input, it either
  returns the port that \<open>int\<close> read, between 1 and 65535, or raises ArgumentTypeError, and no
  other exception.
\<close>

theorem port_type_validation:
  "port_type db (ord_str ''1'') = Inr 1
   \<and> port_type db (ord_str ''65535'') = Inr 65535
   \<and> port_type db (ord_str ''0'') = Inl (ArgumentTypeError (OutOfRange 0))
   \<and> port_type db (ord_str ''65536'') = Inl (ArgumentTypeError (OutOfRange 65536))
   \<and> (non_numeric db v \<longrightarrow> port_type db v = Inl (ArgumentTypeError (MustBeInteger v)))
   \<and> ((\<forall>n. py_int db v \<noteq> Inr n) \<longrightarrow> port_type db v = Inl (ArgumentTypeError (MustBeInteger v)))
   \<and> ((\<exists>p. port_type db v = Inr p \<and> py_int db v = Inr p \<and> 1 \<le> p \<and> p \<le> 65535)
        \<or> (\<exists>m. port_type db v = Inl (ArgumentTypeError m)))"
proof -
  have lo: "port_type db (ord_str ''1'') = Inr 1"
    by (simp add: port_type_def py_int_def ord_str_def strip_def is_space_def int_unsigned_def
          is_digit_def digit_val_def int_max_str_digits_def)
  have hi: "port_type db (ord_str ''65535'') = Inr 65535"
    by (simp add: port_type_def py_int_def ord_str_def strip_def is_space_def int_unsigned_def
          is_digit_def digit_val_def int_max_str_digits_def)
  have zero: "port_type db (ord_str ''0'') = Inl (ArgumentTypeError (OutOfRange 0))"
    by (simp add: port_type_def py_int_def ord_str_def strip_def is_space_def int_unsigned_def
          is_digit_def digit_val_def int_max_str_digits_def)
  have over: "port_type db (ord_str ''65536'') = Inl (ArgumentTypeError (OutOfRange 65536))"
    by (simp add: port_type_def py_int_def ord_str_def strip_def is_space_def int_unsigned_def
          is_digit_def digit_val_def int_max_str_digits_def)
  have err: "port_type db v = Inl (ArgumentTypeError (MustBeInteger v))" if "py_int db v = Inl e" for e
    using that py_int_error [OF that] by (simp add: port_type_def)
  have bad: "non_numeric db v \<longrightarrow> port_type db v = Inl (ArgumentTypeError (MustBeInteger v))"
    using non_numeric_rejected err by blast
  have nonum: "(\<forall>n. py_int db v \<noteq> Inr n) \<longrightarrow> port_type db v = Inl (ArgumentTypeError (MustBeInteger v))"
    using err by (cases "py_int db v") auto
  have total: "(\<exists>p. port_type db v = Inr p \<and> py_int db v = Inr p \<and> 1 \<le> p \<and> p \<le> 65535)
                 \<or> (\<exists>m. port_type db v = Inl (ArgumentTypeError m))"
  proof (cases "py_int db v")
    case (Inl e)
    then show ?thesis using err by blast
  next
    case (Inr p)
    then show ?thesis by (simp add: port_type_def)
  qed
  from lo hi zero over bad nonum total show ?thesis by blast
qed

theorem port_type_validation_witness:
  "non_numeric example_unicode (ord_str ''http'')
   \<and> port_type example_unicode (ord_str ''http'') = Inl (ArgumentTypeError (MustBeInteger (ord_str ''http'')))
   \<and> non_numeric example_unicode []
   \<and> port_type example_unicode [] = Inl (ArgumentTypeError (MustBeInteger []))
   \<and> non_numeric example_unicode (ord_str ''12ab'')
   \<and> port_type example_unicode (ord_str ''12ab'') = Inl (ArgumentTypeError (MustBeInteger (ord_str ''12ab'')))
   \<and> non_numeric example_unicode (ord_str ''80.0'')
   \<and> port_type example_unicode (ord_str ''80.0'') = Inl (ArgumentTypeError (MustBeInteger (ord_str ''80.0'')))
   \<and> non_numeric example_unicode [28, 56, 48]
   \<and> port_type example_unicode [28, 56, 48] = Inl (ArgumentTypeError (MustBeInteger [28, 56, 48]))
   \<and> non_numeric example_unicode [233, 56, 48]
   \<and> port_type example_unicode [233, 56, 48] = Inl (ArgumentTypeError (MustBeInteger [233, 56, 48]))
   \<and> (\<forall>n. py_int example_unicode (ord_str ''1__0'') \<noteq> Inr n)
   \<and> port_type example_unicode (ord_str ''1__0'') = Inl (ArgumentTypeError (MustBeInteger (ord_str ''1__0'')))
   \<and> (\<forall>n. py_int example_unicode (replicate 4301 49) \<noteq> Inr n)
   \<and> port_type example_unicode (replicate 4301 49)
       = Inl (ArgumentTypeError (MustBeInteger (replicate 4301 49)))
   \<and> port_type example_unicode (ord_str '' 8_085 '') = Inr 8085
   \<and> port_type example_unicode (160 # ord_str ''80'') = Inr 80
   \<and> port_type example_unicode [1640, 1632] = Inr 80"
proof -
  note ev = non_numeric_def ord_str_def example_unicode_def numeral_char_def is_digit_def
    is_space_def
  have n1: "non_numeric example_unicode (ord_str ''http'')" by (simp add: ev)
  have n2: "non_numeric example_unicode []" by (simp add: ev)
  have n3: "non_numeric example_unicode (ord_str ''12ab'')" by (simp add: ev)
  have n4: "non_numeric example_unicode (ord_str ''80.0'')" by (simp add: ev)
  have n5: "non_numeric example_unicode [28, 56, 48]" by (simp add: ev)
  have n6: "non_numeric example_unicode [233, 56, 48]" by (simp add: ev)
  have u: "py_int example_unicode (ord_str ''1__0'') = Inl ValueError"
    by (simp add: py_int_def ord_str_def strip_def is_space_def int_unsigned_def is_digit_def
          digit_val_def int_max_str_digits_def)
  have n7: "\<forall>n. py_int example_unicode (ord_str ''1__0'') \<noteq> Inr n"
    unfolding u by simp
  have l: "py_int example_unicode (replicate 4301 49) = Inl ValueError"
    by (rule long_numeral_rejected) (simp add: int_max_str_digits_def)
  have n8: "\<forall>n. py_int example_unicode (replicate 4301 49) \<noteq> Inr n"
    unfolding l by simp
  have r1: "port_type example_unicode (ord_str ''http'')
              = Inl (ArgumentTypeError (MustBeInteger (ord_str ''http'')))"
    using port_type_validation [of example_unicode "ord_str ''http''"] n1 by blast
  have r2: "port_type example_unicode [] = Inl (ArgumentTypeError (MustBeInteger []))"
    using port_type_validation [of example_unicode "[]"] n2 by blast
  have r3: "port_type example_unicode (ord_str ''12ab'')
              = Inl (ArgumentTypeError (MustBeInteger (ord_str ''12ab'')))"
    using port_type_validation [of example_unicode "ord_str ''12ab''"] n3 by blast
  have r4: "port_type example_unicode (ord_str ''80.0'')
              = Inl (ArgumentTypeError (MustBeInteger (ord_str ''80.0'')))"
    using port_type_validation [of example_unicode "ord_str ''80.0''"] n4 by blast
  have r5: "port_type example_unicode [28, 56, 48]
              = Inl (ArgumentTypeError (MustBeInteger [28, 56, 48]))"
    using port_type_validation [of example_unicode "[28, 56, 48]"] n5 by blast
  have r6: "port_type example_unicode [233, 56, 48]
              = Inl (ArgumentTypeError (MustBeInteger [233, 56, 48]))"
    using port_type_validation [of example_unicode "[233, 56, 48]"] n6 by blast
  have r7: "port_type example_unicode (ord_str ''1__0'')
              = Inl (ArgumentTypeError (MustBeInteger (ord_str ''1__0'')))"
    using port_type_validation [of example_unicode "ord_str ''1__0''"] n7 by blast
  have r8: "port_type example_unicode (replicate 4301 49)
              = Inl (ArgumentTypeError (MustBeInteger (replicate 4301 49)))"
    using port_type_validation [of example_unicode "replicate 4301 49"] n8 by blast
  have ok1: "port_type example_unicode (ord_str '' 8_085 '') = Inr 8085"
    by (simp add: port_type_def py_int_def ord_str_def strip_def
          is_space_def int_unsigned_def is_digit_def digit_val_def int_max_str_digits_def)
  have ok2: "port_type example_unicode (160 # ord_str ''80'') = Inr 80"
    by (simp add: port_type_def py_int_def ord_str_def example_unicode_def strip_def
          is_space_def int_unsigned_def is_digit_def digit_val_def int_max_str_digits_def)
  have ok3: "port_type example_unicode [1640, 1632] = Inr 80"
    by (simp add: port_type_def py_int_def example_unicode_def strip_def
          is_space_def int_unsigned_def is_digit_def digit_val_def int_max_str_digits_def)
  show ?thesis
    by (intro conjI) (fact n1 r1 n2 r2 n3 r3 n4 r4 n5 r5 n6 r6 n7 r7 n8 r8 ok1 ok2 ok3)+
qed

text \<open>
  Claim C6 says that each of the three selector values the debug stub accepts dispatches
  to a routine of its own. The parser accepts \<open>mcp_yt-server\<close>, \<open>universal-client\<close> and
  \<open>yt-search\<close>, but the \<open>match\<close> statement tests for \<open>mcp-yt-server\<close>: the accepted value
  \<open>mcp_yt-server\<close> falls through every case and the stub returns without calling anything,
  and no value of \<open>--test\<close> reaches the server's \<open>main\<close>. The other two values dispatch, and
  an invocation without arguments prints the usage and exits with status 2.
\<close>

theorem debug_stub_server_selector_falls_through:
  "parse_args (TestArg ''mcp_yt-server'') = Inr ''mcp_yt-server''
   \<and> debug_stub (TestArg ''mcp_yt-server'') = Returned
   \<and> (\<forall>v. debug_stub (TestArg v) \<noteq> Dispatched ServerMain)
   \<and> debug_stub (TestArg ''universal-client'') = Dispatched ClientRun
   \<and> debug_stub (TestArg ''yt-search'') = Dispatched SearchTest
   \<and> debug_stub NoArguments = Exit 2 Usage"
proof -
  have low: "str_lower ''mcp_yt-server'' = ''mcp_yt-server''"
    "str_lower ''universal-client'' = ''universal-client''"
    "str_lower ''yt-search'' = ''yt-search''"
    by (simp_all add: str_lower_def lower_char_def)
  have p: "parse_args (TestArg ''mcp_yt-server'') = Inr ''mcp_yt-server''"
    by (simp add: parse_args_def low choices_def)
  have r: "debug_stub (TestArg ''mcp_yt-server'') = Returned"
    by (simp add: debug_stub_def p sys_argv_def)
  have never: "debug_stub (TestArg v) \<noteq> Dispatched ServerMain" for v
    by (auto simp: debug_stub_def parse_args_def choices_def sys_argv_def split: sum.splits)
  have c: "debug_stub (TestArg ''universal-client'') = Dispatched ClientRun"
    by (simp add: debug_stub_def parse_args_def low choices_def sys_argv_def)
  have y: "debug_stub (TestArg ''yt-search'') = Dispatched SearchTest"
    by (simp add: debug_stub_def parse_args_def low choices_def sys_argv_def)
  have n: "debug_stub NoArguments = Exit 2 Usage"
    by (simp add: debug_stub_def parse_args_def)
  from p r never c y n show ?thesis by blast
qed

end
